theory Spec2Isabelle
  imports Complex_Main "HOL-Library.Sublist" "HOL-Library.AList" "HOL-Library.Log_Nat"
begin

section \<open>Strings\<close>

text \<open>
  A JavaScript string is modelled as a \<^typ>\<open>string\<close>: the list of its code units.
  The two quote characters are named, since both delimit Isabelle's own literals.
\<close>

definition squote :: char where
  "squote = CHR 0x27"

definition dquote :: char where
  "dquote = CHR 0x22"

definition digits :: string where
  "digits = ''0123456789''"

text \<open>\<^verbatim>\<open>s.startsWith(p)\<close>, \<^verbatim>\<open>s.endsWith(p)\<close> and \<^verbatim>\<open>s.includes(p)\<close>.\<close>

definition startsWith :: "string \<Rightarrow> string \<Rightarrow> bool" where
  "startsWith s p = prefix p s"

definition endsWith :: "string \<Rightarrow> string \<Rightarrow> bool" where
  "endsWith s p = suffix p s"

fun str_includes :: "string \<Rightarrow> string \<Rightarrow> bool" where
  "str_includes [] p = (p = [])"
| "str_includes (c # cs) p = (prefix p (c # cs) \<or> str_includes cs p)"

text \<open>
  \<^verbatim>\<open>s.substring(0, n)\<close> for an integer \<open>n\<close>: a negative end index is clamped to 0 and
  one beyond the length to the length.
\<close>

definition substring0 :: "string \<Rightarrow> int \<Rightarrow> string" where
  "substring0 s n = take (nat n) s"

section \<open>Regular expressions\<close>

text \<open>
  The regular expressions of the program are sequences of pieces, each a single-character
  matcher that is taken once, optionally (\<^verbatim>\<open>?\<close>), any number of times (\<^verbatim>\<open>*\<close>) or at
  least once (\<^verbatim>\<open>+\<close>); every capture group of the program encloses one \<^verbatim>\<open>+\<close> piece.
  The quantifiers are greedy and backtrack as in ECMAScript: the longest repetition is
  tried first, then shorter ones, until the rest of the pattern matches.
\<close>

datatype atom =
    Lit char             \<comment> \<open>the character itself\<close>
  | Cls string           \<comment> \<open>\<^verbatim>\<open>[...]\<close>: one of the characters\<close>
  | NCls string          \<comment> \<open>\<^verbatim>\<open>[^...]\<close>: none of the characters\<close>

datatype piece =
    One atom
  | Opt atom
  | Star atom
  | Plus atom
  | CapPlus atom         \<comment> \<open>\<^verbatim>\<open>(a+)\<close>\<close>

fun atom_ok :: "atom \<Rightarrow> char \<Rightarrow> bool" where
  "atom_ok (Lit c) x = (x = c)"
| "atom_ok (Cls cs) x = (x \<in> set cs)"
| "atom_ok (NCls cs) x = (x \<notin> set cs)"

text \<open>\<^verbatim>\<open>.\<close> matches any character but a line terminator.\<close>

definition dot :: atom where
  "dot = NCls [CHR 0x0A, CHR 0x0D]"

definition lits :: "string \<Rightarrow> piece list" where
  "lits s = map (\<lambda>c. One (Lit c)) s"

fun first_some :: "'a option list \<Rightarrow> 'a option" where
  "first_some [] = None"
| "first_some (Some x # _) = Some x"
| "first_some (None # xs) = first_some xs"

text \<open>The repetition counts a greedy quantifier tries, in order: \<open>hi\<close> down to \<open>lo\<close>.\<close>

definition counts :: "nat \<Rightarrow> nat \<Rightarrow> nat list" where
  "counts lo hi = rev [lo..<Suc hi]"

text \<open>
  \<open>rx_match ps s\<close> matches the pattern at the start of \<open>s\<close>: the captured groups and the
  text left after the match, or \<open>None\<close>.
\<close>

fun rx_match :: "piece list \<Rightarrow> string \<Rightarrow> (string list \<times> string) option" where
  "rx_match [] s = Some ([], s)"
| "rx_match (One a # ps) s =
     (case s of [] \<Rightarrow> None
      | c # cs \<Rightarrow> if atom_ok a c then rx_match ps cs else None)"
| "rx_match (Opt a # ps) s =
     first_some (map (\<lambda>k. rx_match ps (drop k s))
       (counts 0 (min 1 (length (takeWhile (atom_ok a) s)))))"
| "rx_match (Star a # ps) s =
     first_some (map (\<lambda>k. rx_match ps (drop k s))
       (counts 0 (length (takeWhile (atom_ok a) s))))"
| "rx_match (Plus a # ps) s =
     first_some (map (\<lambda>k. rx_match ps (drop k s))
       (counts 1 (length (takeWhile (atom_ok a) s))))"
| "rx_match (CapPlus a # ps) s =
     first_some (map (\<lambda>k. map_option (\<lambda>(gs, r). (take k s # gs, r)) (rx_match ps (drop k s)))
       (counts 1 (length (takeWhile (atom_ok a) s))))"

text \<open>
  \<^verbatim>\<open>s.match(re)\<close> without the \<^verbatim>\<open>g\<close> flag: the first position of \<open>s\<close>, from the left, where
  the pattern matches; \<open>None\<close> is JavaScript's \<^verbatim>\<open>null\<close>. The result is the list of groups
  \<^verbatim>\<open>match[1]\<close>, \<^verbatim>\<open>match[2]\<close>, ...
\<close>

fun js_match :: "piece list \<Rightarrow> string \<Rightarrow> string list option" where
  "js_match ps [] = map_option fst (rx_match ps [])"
| "js_match ps (c # cs) =
     (case rx_match ps (c # cs) of
        Some (gs, _) \<Rightarrow> Some gs
      | None \<Rightarrow> js_match ps cs)"

text \<open>
  \<^verbatim>\<open>s.replace(re, "?")\<close> with the \<^verbatim>\<open>g\<close> flag: scanning from the left, every match is
  replaced and the scan goes on behind it; a character where no match starts is copied.
  After an empty match the scan steps over one character, which is copied.
\<close>

fun replace_all :: "piece list \<Rightarrow> string \<Rightarrow> string" where
  "replace_all ps [] = (case rx_match ps [] of Some _ \<Rightarrow> ''?'' | None \<Rightarrow> [])"
| "replace_all ps (c # cs) =
     (case rx_match ps (c # cs) of
        None \<Rightarrow> c # replace_all ps cs
      | Some (_, r) \<Rightarrow>
          if length r < length (c # cs) then CHR ''?'' # replace_all ps r
          else CHR ''?'' # c # replace_all ps cs)"

section \<open>Query normalisation\<close>

text \<open>\<^verbatim>\<open>/[-+]?[0-9]*\.?[0-9]+/g\<close>\<close>

definition number_rx :: "piece list" where
  "number_rx = [Opt (Cls ''-+''), Star (Cls digits), Opt (Lit CHR ''.''), Plus (Cls digits)]"

text \<open>\<^verbatim>\<open>/'[^']*'/g\<close>\<close>

definition string_rx :: "piece list" where
  "string_rx = [One (Lit squote), Star (NCls [squote]), One (Lit squote)]"

definition cleanUpQuery :: "string \<Rightarrow> string" where
  "cleanUpQuery query =
     (let cleanQuery = replace_all number_rx query;
          cleanQuery = replace_all string_rx cleanQuery
      in if endsWith cleanQuery [dquote]
         then substring0 cleanQuery (int (length cleanQuery) - 2)
         else cleanQuery)"

section \<open>Numbers\<close>

text \<open>
  A JavaScript number is an IEEE 754 double. \<open>Fin q\<close> is the finite double of value \<open>q\<close>;
  the two zeros are one value \<open>Fin 0\<close>, which the program cannot tell apart (it adds,
  subtracts and compares). Every operation computes the exact rational result and rounds
  it to the nearest double, ties to the even significand.
\<close>

datatype jsnum = NaN | PInf | NInf | Fin rat

definition pow2 :: "int \<Rightarrow> rat" where
  "pow2 k = (if 0 \<le> k then 2 ^ nat k else 1 / 2 ^ nat (- k))"

text \<open>For \<open>a > 0\<close>, the exponent \<open>k\<close> with \<open>2\<^sup>k \<le> a < 2\<^sup>k\<^sup>+\<^sup>1\<close>.\<close>

definition flog2 :: "rat \<Rightarrow> int" where
  "flog2 a = (let (n, d) = quotient_of a; k = bitlen n - bitlen d
              in if pow2 k \<le> a then k else k - 1)"

definition round_half_even :: "rat \<Rightarrow> int" where
  "round_half_even x =
     (let f = \<lfloor>x\<rfloor>; r = x - of_int f
      in if r < 1 / 2 then f else if 1 / 2 < r then f + 1 else if even f then f else f + 1)"

text \<open>
  Doubles have 53 significant bits, so the spacing of the doubles around \<open>a\<close> is
  \<open>2\<^sup>e\<close> with \<open>e = flog2 a - 52\<close>, and never less than \<open>2\<^sup>-\<^sup>1\<^sup>0\<^sup>7\<^sup>4\<close> (the subnormal range).
  A result of \<open>2\<^sup>1\<^sup>0\<^sup>2\<^sup>4\<close> or more, that is with \<open>flog2 r \<ge> 1024\<close>, is an infinity.
\<close>

definition round_double :: "rat \<Rightarrow> jsnum" where
  "round_double q =
     (if q = 0 then Fin 0
      else let a = \<bar>q\<bar>;
               e = max (flog2 a - 52) (- 1074);
               r = of_int (round_half_even (a / pow2 e)) * pow2 e
           in if 0 < r \<and> 1024 \<le> flog2 r then (if 0 < q then PInf else NInf)
              else Fin (if 0 < q then r else - r))"

fun js_add :: "jsnum \<Rightarrow> jsnum \<Rightarrow> jsnum" where
  "js_add (Fin a) (Fin b) = round_double (a + b)"
| "js_add NaN _ = NaN"
| "js_add _ NaN = NaN"
| "js_add PInf NInf = NaN"
| "js_add NInf PInf = NaN"
| "js_add PInf _ = PInf"
| "js_add NInf _ = NInf"
| "js_add _ PInf = PInf"
| "js_add _ NInf = NInf"

fun js_neg :: "jsnum \<Rightarrow> jsnum" where
  "js_neg NaN = NaN"
| "js_neg PInf = NInf"
| "js_neg NInf = PInf"
| "js_neg (Fin a) = Fin (- a)"

definition js_sub :: "jsnum \<Rightarrow> jsnum \<Rightarrow> jsnum" where
  "js_sub a b = js_add a (js_neg b)"

text \<open>The comparisons \<^verbatim>\<open><\<close>, \<^verbatim>\<open>>=\<close> and \<^verbatim>\<open>==\<close> on numbers: all false when a side is \<^verbatim>\<open>NaN\<close>.\<close>

fun js_lt :: "jsnum \<Rightarrow> jsnum \<Rightarrow> bool" where
  "js_lt NaN _ = False"
| "js_lt _ NaN = False"
| "js_lt (Fin a) (Fin b) = (a < b)"
| "js_lt NInf b = (b \<noteq> NInf)"
| "js_lt a PInf = (a \<noteq> PInf)"
| "js_lt PInf _ = False"
| "js_lt _ NInf = False"

definition js_eq :: "jsnum \<Rightarrow> jsnum \<Rightarrow> bool" where
  "js_eq a b = (a \<noteq> NaN \<and> b \<noteq> NaN \<and> a = b)"

definition js_ge :: "jsnum \<Rightarrow> jsnum \<Rightarrow> bool" where
  "js_ge a b = (js_lt b a \<or> js_eq a b)"

text \<open>
  A field that was never assigned reads as \<^verbatim>\<open>undefined\<close>, here \<open>None\<close>; in arithmetic
  \<^verbatim>\<open>undefined\<close> converts to \<^verbatim>\<open>NaN\<close>. \<open>js_plus\<close> and \<open>js_minus\<close> are \<^verbatim>\<open>+\<close> and \<^verbatim>\<open>-\<close> on
  such fields (the program applies \<^verbatim>\<open>+\<close> to numbers and \<^verbatim>\<open>undefined\<close> only, never to a
  string).
\<close>

definition to_number :: "jsnum option \<Rightarrow> jsnum" where
  "to_number v = (case v of None \<Rightarrow> NaN | Some n \<Rightarrow> n)"

definition js_plus :: "jsnum option \<Rightarrow> jsnum option \<Rightarrow> jsnum" where
  "js_plus a b = js_add (to_number a) (to_number b)"

definition js_minus :: "jsnum option \<Rightarrow> jsnum option \<Rightarrow> jsnum" where
  "js_minus a b = js_sub (to_number a) (to_number b)"

definition is_digit :: "char \<Rightarrow> bool" where
  "is_digit c = (c \<in> set digits)"

definition digit_val :: "char \<Rightarrow> int" where
  "digit_val c = of_char c - 48"

definition int_of_digits :: "string \<Rightarrow> int" where
  "int_of_digits ds = foldl (\<lambda>n c. 10 * n + digit_val c) 0 ds"

text \<open>
  \<^verbatim>\<open>parseFloat\<close> and \<^verbatim>\<open>parseInt\<close> read the longest prefix that is a decimal literal, and
  give \<^verbatim>\<open>NaN\<close> when there is none. The program passes them captured groups only, which
  consist of digits and dots (\<^verbatim>\<open>parseFloat\<close>) or of digits (\<^verbatim>\<open>parseInt\<close>), so signs,
  exponents, white space and radix prefixes do not occur.
\<close>

definition parseFloat :: "string \<Rightarrow> jsnum" where
  "parseFloat s =
     (let ip = takeWhile is_digit s;
          r = dropWhile is_digit s;
          fp = (case r of [] \<Rightarrow> []
                | c # r' \<Rightarrow> if c = CHR ''.'' then takeWhile is_digit r' else [])
      in if ip = [] \<and> fp = [] then NaN
         else round_double
                (of_int (int_of_digits ip) + of_int (int_of_digits fp) / 10 ^ length fp))"

definition parseInt :: "string \<Rightarrow> jsnum" where
  "parseInt s =
     (let ds = takeWhile is_digit s
      in if ds = [] then NaN else round_double (of_int (int_of_digits ds)))"

section \<open>The line handler\<close>

text \<open>
  The object \<^verbatim>\<open>currentTiming\<close> and the values of \<^verbatim>\<open>queryToTimingsMap\<close>: \<^verbatim>\<open>count\<close> and
  \<^verbatim>\<open>query\<close> are set from the start, the other fields are \<^verbatim>\<open>undefined\<close> until assigned.
  \<^verbatim>\<open>count\<close> only ever starts at 1 and grows by 1, where number arithmetic is exact
  (below \<open>2\<^sup>5\<^sup>3\<close>): it is a natural number.
\<close>

record timing =
  count :: nat
  query :: string
  queryTime :: "jsnum option"
  lockTime :: "jsnum option"
  totalTime :: "jsnum option"
  unixTimestamp :: "jsnum option"
  connectionId :: "jsnum option"

text \<open>
  A \<^verbatim>\<open>Map\<close> keeps its entries in insertion order: an association list, where setting a new
  key appends the entry and setting a present key replaces the value in place, which is
  \<^const>\<open>AList.update\<close>. The lookup \<^verbatim>\<open>get\<close> is \<^const>\<open>map_of\<close>.
\<close>

type_synonym timings_map = "(string \<times> timing) list"

record state =
  queryToTimingsMap :: timings_map
  currentTiming :: timing

text \<open>\<^verbatim>\<open>{count: 1, query: ""}\<close>\<close>

definition new_timing :: timing where
  "new_timing =
     \<lparr>count = 1, query = [], queryTime = None, lockTime = None, totalTime = None,
      unixTimestamp = None, connectionId = None\<rparr>"

definition init_state :: state where
  "init_state = \<lparr>queryToTimingsMap = [], currentTiming = new_timing\<rparr>"

text \<open>
  \<^verbatim>\<open>/# Query_time: ([0-9.]+) +Lock_time: ([0-9.]+) +Rows_sent: ([0-9.]+) +Rows_examined: ([0-9.]+)/\<close>
\<close>

definition query_time_rx :: "piece list" where
  "query_time_rx =
     lits ''# Query_time: '' @ [CapPlus (Cls (digits @ ''.'')), Plus (Lit CHR '' '')] @
     lits ''Lock_time: '' @ [CapPlus (Cls (digits @ ''.'')), Plus (Lit CHR '' '')] @
     lits ''Rows_sent: '' @ [CapPlus (Cls (digits @ ''.'')), Plus (Lit CHR '' '')] @
     lits ''Rows_examined: '' @ [CapPlus (Cls (digits @ ''.''))]"

text \<open>\<^verbatim>\<open>/SET timestamp=([0-9]+)/\<close>\<close>

definition timestamp_rx :: "piece list" where
  "timestamp_rx = lits ''SET timestamp='' @ [CapPlus (Cls digits)]"

text \<open>\<^verbatim>\<open>/# Thread_id: *([0-9]+)/\<close>\<close>

definition thread_id_rx :: "piece list" where
  "thread_id_rx = lits ''# Thread_id:'' @ [Star (Lit CHR '' ''), CapPlus (Cls digits)]"

text \<open>\<^verbatim>\<open>/# User@Host: .* Id: *([0-9]+)/\<close>\<close>

definition user_host_rx :: "piece list" where
  "user_host_rx =
     lits ''# User@Host: '' @ [Star dot] @ lits '' Id:'' @
     [Star (Lit CHR '' ''), CapPlus (Cls digits)]"

text \<open>
  Reading \<^verbatim>\<open>match[i]\<close> throws a \<^verbatim>\<open>TypeError\<close> when \<^verbatim>\<open>match\<close> is \<^verbatim>\<open>null\<close>. Nothing catches
  it: the handler, and with it the run, ends there.
\<close>

datatype error = TypeError

definition group :: "string list \<Rightarrow> nat \<Rightarrow> string" where
  "group gs i = gs ! (i - 1)"

text \<open>
  The body of \<^verbatim>\<open>if (query) { ... }\<close> in the \<^verbatim>\<open># Time:\<close> branch: the entry is merged into
  the stat stored under its cleaned query, or stored itself as a new stat.
\<close>

definition commit :: "timing \<Rightarrow> timings_map \<Rightarrow> timings_map" where
  "commit cur m =
     (let query = cleanUpQuery (query cur)
      in case map_of m query of
           Some queryTiming \<Rightarrow>
             AList.update query
               (queryTiming
                 \<lparr>totalTime :=
                    Some (js_plus (totalTime queryTiming)
                            (Some (js_plus (queryTime cur) (lockTime cur)))),
                  queryTime := Some (js_plus (queryTime queryTiming) (queryTime cur)),
                  lockTime := Some (js_plus (lockTime queryTiming) (lockTime cur)),
                  count := count queryTiming + 1\<rparr>) m
         | None \<Rightarrow>
             AList.update query
               (cur\<lparr>totalTime := Some (js_plus (queryTime cur) (lockTime cur)),
                    query := query\<rparr>) m)"

definition is_boundary :: "bool \<Rightarrow> string \<Rightarrow> bool" where
  "is_boundary cloudwatchFormat line =
     (if cloudwatchFormat then str_includes line ''# Time:'' else startsWith line ''# Time:'')"

text \<open>
  The \<^verbatim>\<open>"line"\<close> handler. The line counter and the progress message every 10000 lines
  touch nothing else and are left out.
\<close>

definition process_line :: "bool \<Rightarrow> string \<Rightarrow> state \<Rightarrow> error + state" where
  "process_line cloudwatchFormat line st =
     (let cur = currentTiming st in
      if is_boundary cloudwatchFormat line then
        Inr \<lparr>queryToTimingsMap =
               (if query cur \<noteq> [] then commit cur (queryToTimingsMap st)
                else queryToTimingsMap st),
             currentTiming = new_timing\<rparr>
      else if startsWith line ''# Query_time'' then
        (case js_match query_time_rx line of
           None \<Rightarrow> Inl TypeError
         | Some gs \<Rightarrow>
             Inr (st\<lparr>currentTiming :=
                       cur\<lparr>queryTime := Some (parseFloat (group gs 1)),
                           lockTime := Some (parseFloat (group gs 2))\<rparr>\<rparr>))
      else if startsWith line ''SET timestamp='' then
        (case js_match timestamp_rx line of
           None \<Rightarrow> Inl TypeError
         | Some gs \<Rightarrow>
             Inr (st\<lparr>currentTiming := cur\<lparr>unixTimestamp := Some (parseInt (group gs 1))\<rparr>\<rparr>))
      else if startsWith line ''# Thread_id:'' then
        (case js_match thread_id_rx line of
           None \<Rightarrow> Inl TypeError
         | Some gs \<Rightarrow>
             Inr (st\<lparr>currentTiming := cur\<lparr>connectionId := Some (parseInt (group gs 1))\<rparr>\<rparr>))
      else if startsWith line ''# User@Host'' then
        (case js_match user_host_rx line of
           None \<Rightarrow> Inl TypeError
         | Some gs \<Rightarrow>
             Inr (st\<lparr>currentTiming := cur\<lparr>connectionId := Some (parseInt (group gs 1))\<rparr>\<rparr>))
      else if startsWith line ''#''
           \<or> startsWith line ''Tcp port:''
           \<or> startsWith line ''use ''
           \<or> startsWith line ''/* ''
           \<or> startsWith line ''/rdsdbbin''
           \<or> startsWith line ''@timestamp,@message''
           \<or> startsWith line ''Time         '' then
        Inr st
      else
        Inr (st\<lparr>currentTiming := cur\<lparr>query := query cur @ line\<rparr>\<rparr>))"

text \<open>The reader hands the lines of the file to the handler one by one, in order.\<close>

fun run :: "bool \<Rightarrow> string list \<Rightarrow> state \<Rightarrow> error + state" where
  "run cloudwatchFormat [] st = Inr st"
| "run cloudwatchFormat (line # lines) st =
     (case process_line cloudwatchFormat line st of
        Inl e \<Rightarrow> Inl e
      | Inr st' \<Rightarrow> run cloudwatchFormat lines st')"

section \<open>The reports\<close>

text \<open>
  \<^verbatim>\<open>Array.prototype.sort\<close> belongs to the JavaScript engine, not to the program: it is a
  parameter of the report functions. It takes the comparison function and the array, and
  returns the array sorted. A comparison result that is positive asks for the first
  argument to come behind the second, a negative one for the opposite, and zero or \<^verbatim>\<open>NaN\<close>
  for neither.
\<close>

type_synonym 'a sorter = "('a \<Rightarrow> 'a \<Rightarrow> jsnum) \<Rightarrow> 'a list \<Rightarrow> 'a list"

definition js_pos :: "jsnum \<Rightarrow> bool" where
  "js_pos v = js_lt (Fin 0) v"

definition js_neg0 :: "jsnum \<Rightarrow> bool" where
  "js_neg0 v = js_lt v (Fin 0)"

text \<open>
  One stable sorting function, to have an instance of the parameter: insertion sort, where
  an element moves behind another exactly when the comparison of the two is positive.
\<close>

fun insert_by :: "('a \<Rightarrow> 'a \<Rightarrow> jsnum) \<Rightarrow> 'a \<Rightarrow> 'a list \<Rightarrow> 'a list" where
  "insert_by cmp x [] = [x]"
| "insert_by cmp x (y # ys) =
     (if js_pos (cmp x y) then y # insert_by cmp x ys else x # y # ys)"

definition insertion_sort :: "'a sorter" where
  "insertion_sort cmp xs = foldr (insert_by cmp) xs []"

text \<open>
  \<^verbatim>\<open>writeTimingsCSV\<close>: the rows of the timing report, in the order they are written. Each
  row prints fields of one stat; the printing is not modelled.
\<close>

definition writeTimingsCSV :: "timing sorter \<Rightarrow> timings_map \<Rightarrow> timing list" where
  "writeTimingsCSV sort_fn m =
     sort_fn (\<lambda>v1 v2. js_minus (totalTime v2) (totalTime v1)) (map snd m)"

text \<open>
  \<^verbatim>\<open>writeConnectionsCSV\<close>: the stats are grouped by \<^verbatim>\<open>unixTimestamp\<close> in a second \<^verbatim>\<open>Map\<close>
  (whose keys may be \<^verbatim>\<open>undefined\<close>), and the groups are sorted by timestamp.
\<close>

record connections =
  conn_unixTimestamp :: "jsnum option"
  conn_count :: nat
  conn_queries :: "string list"

definition add_query :: "(jsnum option \<times> string list) list \<Rightarrow> timing \<Rightarrow>
    (jsnum option \<times> string list) list" where
  "add_query tm v =
     (case map_of tm (unixTimestamp v) of
        Some queries \<Rightarrow> AList.update (unixTimestamp v) (queries @ [query v]) tm
      | None \<Rightarrow> AList.update (unixTimestamp v) [query v] tm)"

definition timestampToQueriesMap :: "timings_map \<Rightarrow> (jsnum option \<times> string list) list" where
  "timestampToQueriesMap m = foldl add_query [] (map snd m)"

definition writeConnectionsCSV :: "connections sorter \<Rightarrow> timings_map \<Rightarrow> connections list" where
  "writeConnectionsCSV sort_fn m =
     (let timings =
            map (\<lambda>(timestamp, queries).
                   \<lparr>conn_unixTimestamp = timestamp, conn_count = length queries,
                    conn_queries = queries\<rparr>)
              (timestampToQueriesMap m)
      in sort_fn (\<lambda>v1 v2. js_minus (conn_unixTimestamp v1) (conn_unixTimestamp v2)) timings)"

text \<open>
  The whole program: the two reports are written at the end of the input, unless a line
  made the handler throw.
\<close>

definition slowLogAnalyzer ::
    "timing sorter \<Rightarrow> connections sorter \<Rightarrow> bool \<Rightarrow> string list \<Rightarrow>
     error + (timing list \<times> connections list)" where
  "slowLogAnalyzer sort1 sort2 cloudwatchFormat lines =
     (case run cloudwatchFormat lines init_state of
        Inl e \<Rightarrow> Inl e
      | Inr st \<Rightarrow>
          Inr (writeTimingsCSV sort1 (queryToTimingsMap st),
               writeConnectionsCSV sort2 (queryToTimingsMap st)))"

text \<open>Every key of the mapping is the cleaned form of a query text that is not empty.\<close>

definition keys_cleaned :: "timings_map \<Rightarrow> bool" where
  "keys_cleaned m = (\<forall>k \<in> fst ` set m. \<exists>q. q \<noteq> [] \<and> k = cleanUpQuery q)"

section \<open>Example inputs\<close>

text \<open>The lines of one log entry, without the boundary line before it.\<close>

definition example_entry :: "string \<Rightarrow> string \<Rightarrow> string \<Rightarrow> string \<Rightarrow> string list" where
  "example_entry ts qt lt q =
     [''# User@Host: user[user] @ [1.2.3.4] Id: 42'',
      ''# Query_time: '' @ qt @ ''  Lock_time: '' @ lt @ '' Rows_sent: 1  Rows_examined: 10'',
      ''SET timestamp='' @ ts @ '';'',
      q]"

section \<open>Properties of the normalisation\<close>

lemma endsWith_single: "endsWith s [c] \<longleftrightarrow> s \<noteq> [] \<and> last s = c"
  by (cases s rule: rev_cases) (auto simp add: endsWith_def)

text \<open>
  Claim C7, as stated, fails where the substituted text is the double quote alone:
  \<^verbatim>\<open>substring(0, -1)\<close> is the empty text, so one character is dropped, not two.
\<close>

theorem cleanUpQuery_lone_quote_counterexample:
  "replace_all string_rx (replace_all number_rx [dquote]) = [dquote]
   \<and> endsWith [dquote] [dquote]
   \<and> cleanUpQuery [dquote] = []
   \<and> int (length [dquote]) - int (length (cleanUpQuery [dquote])) = 1"
  by code_simp

text \<open>
  Claim C7, amended. After the number and string substitutions, a text of two or more
  characters that ends with a double quote loses exactly its last two characters, the
  quote and the character before it; the text that is the double quote alone becomes
  empty; and a text that does not end with a double quote is returned as it is.
\<close>

theorem cleanUpQuery_trailing_quote:
  assumes "s = replace_all string_rx (replace_all number_rx q)"
  shows "(endsWith s [dquote] \<and> 2 \<le> length s \<longrightarrow>
            (\<exists>c. s = cleanUpQuery q @ [c, dquote])
            \<and> int (length s) - int (length (cleanUpQuery q)) = 2)
       \<and> (s = [dquote] \<longrightarrow> cleanUpQuery q = [])
       \<and> (\<not> endsWith s [dquote] \<longrightarrow> cleanUpQuery q = s)"
proof -
  have trim: "substring0 s (int (length s) - 2) = butlast (butlast s)"
    by (simp add: substring0_def butlast_conv_take nat_diff_distrib' numeral_2_eq_2)
  have c: "cleanUpQuery q = (if endsWith s [dquote] then butlast (butlast s) else s)"
    using trim by (simp add: cleanUpQuery_def Let_def assms)
  have split: "s = butlast (butlast s) @ [s ! (length s - 2), dquote]"
    if e: "endsWith s [dquote]" and l: "2 \<le> length s"
  proof -
    from e obtain ys where s1: "s = ys @ [dquote]"
      by (cases s rule: rev_cases) (auto simp add: endsWith_def)
    with l obtain zs z where s2: "ys = zs @ [z]"
      by (cases ys rule: rev_cases) auto
    show ?thesis
      by (simp add: s1 s2 butlast_append nth_append)
  qed
  have two: "\<exists>c. s = cleanUpQuery q @ [c, dquote]"
    if "endsWith s [dquote]" and "2 \<le> length s"
    using split [OF that] c that(1) by auto
  have len: "int (length s) - int (length (cleanUpQuery q)) = 2"
    if "endsWith s [dquote]" and "2 \<le> length s"
    using c that by simp
  have lone: "cleanUpQuery q = []" if "s = [dquote]"
    using c that by (simp add: endsWith_def)
  from two len lone c show ?thesis
    by simp
qed

theorem cleanUpQuery_trailing_quote_witness:
  "endsWith (''x = ? a'' @ [dquote]) [dquote] \<and> 2 \<le> length (''x = ? a'' @ [dquote])
   \<and> cleanUpQuery (''x = 5 a'' @ [dquote]) = ''x = ? ''
   \<and> cleanUpQuery [dquote] = []
   \<and> \<not> endsWith ''x = ?'' [dquote] \<and> cleanUpQuery ''x = 5'' = ''x = ?''"
proof -
  have s1: "''x = ? a'' @ [dquote] = replace_all string_rx (replace_all number_rx (''x = 5 a'' @ [dquote]))"
    by code_simp
  have s2: "''x = ?'' = replace_all string_rx (replace_all number_rx ''x = 5'')"
    by code_simp
  have s3: "[dquote] = replace_all string_rx (replace_all number_rx [dquote])"
    by code_simp
  have e1: "endsWith (''x = ? a'' @ [dquote]) [dquote]" by code_simp
  have l1: "2 \<le> length (''x = ? a'' @ [dquote])" by simp
  have e2: "\<not> endsWith ''x = ?'' [dquote]" by code_simp
  from cleanUpQuery_trailing_quote [OF s1] e1 l1
  obtain c where "''x = ? a'' @ [dquote] = cleanUpQuery (''x = 5 a'' @ [dquote]) @ [c, dquote]"
    by blast
  then have "(''x = ? '' @ [CHR ''a'']) @ [dquote] = (cleanUpQuery (''x = 5 a'' @ [dquote]) @ [c]) @ [dquote]"
    by simp
  then have "''x = ? '' @ [CHR ''a''] = cleanUpQuery (''x = 5 a'' @ [dquote]) @ [c]"
    by (rule append1_eq_conv [THEN iffD1, THEN conjunct1])
  then have c1: "cleanUpQuery (''x = 5 a'' @ [dquote]) = ''x = ? ''"
    by (simp only: append1_eq_conv)
  have c2: "cleanUpQuery ''x = 5'' = ''x = ?''"
    using cleanUpQuery_trailing_quote [OF s2] e2 by blast
  have c3: "cleanUpQuery [dquote] = []"
    using cleanUpQuery_trailing_quote [OF s3] by blast
  show ?thesis
    using c1 c2 c3 e1 l1 e2 by blast
qed

section \<open>Properties of the line handler\<close>

lemma process_line_boundary:
  "is_boundary cw l \<Longrightarrow>
   process_line cw l st =
     Inr \<lparr>queryToTimingsMap =
            (if query (currentTiming st) \<noteq> []
             then commit (currentTiming st) (queryToTimingsMap st)
             else queryToTimingsMap st),
          currentTiming = new_timing\<rparr>"
  by (simp add: process_line_def)

lemma process_line_other_map:
  "\<not> is_boundary cw l \<Longrightarrow> process_line cw l st = Inr st' \<Longrightarrow>
   queryToTimingsMap st' = queryToTimingsMap st"
  by (auto simp add: process_line_def Let_def split: if_splits option.splits)

lemma run_append:
  "run cw (xs @ ys) st =
     (case run cw xs st of Inl e \<Rightarrow> Inl e | Inr st' \<Rightarrow> run cw ys st')"
  by (induction xs arbitrary: st) (auto split: sum.splits)

lemma run_no_boundary_map:
  "\<forall>l \<in> set ls. \<not> is_boundary cw l \<Longrightarrow> run cw ls st = Inr st' \<Longrightarrow>
   queryToTimingsMap st' = queryToTimingsMap st"
proof (induction ls arbitrary: st)
  case Nil
  then show ?case by simp
next
  case (Cons l ls)
  from Cons.prems(2) obtain st1 where
    s1: "process_line cw l st = Inr st1" and r: "run cw ls st1 = Inr st'"
    by (auto split: sum.splits)
  from Cons.prems(1) have "\<not> is_boundary cw l" by simp
  from process_line_other_map [OF this s1]
  have "queryToTimingsMap st1 = queryToTimingsMap st" .
  moreover from Cons.IH [OF _ r] Cons.prems(1)
  have "queryToTimingsMap st' = queryToTimingsMap st1" by simp
  ultimately show ?case by simp
qed

text \<open>
  Claim C9. The lines after the last boundary line (the final entry, when no \<^verbatim>\<open># Time:\<close>
  line follows it) leave the mapping as it was after that boundary line, so both reports
  are those of the input without these lines: the end of the input commits nothing.
\<close>

theorem final_entry_never_committed:
  assumes "\<forall>l \<in> set final. \<not> is_boundary cw l"
    and "run cw (lines @ final) init_state = Inr st'"
  shows "\<exists>st. run cw lines init_state = Inr st
           \<and> queryToTimingsMap st' = queryToTimingsMap st
           \<and> slowLogAnalyzer sort1 sort2 cw (lines @ final) = slowLogAnalyzer sort1 sort2 cw lines"
proof -
  from assms(2) obtain st where
    r1: "run cw lines init_state = Inr st" and r2: "run cw final st = Inr st'"
    by (auto simp add: run_append split: sum.splits)
  from assms(1) r2 have m: "queryToTimingsMap st' = queryToTimingsMap st"
    by (rule run_no_boundary_map)
  from r1 assms(2) m have "slowLogAnalyzer sort1 sort2 cw (lines @ final) = slowLogAnalyzer sort1 sort2 cw lines"
    by (simp add: slowLogAnalyzer_def)
  with r1 m show ?thesis by simp
qed

theorem final_entry_never_committed_witness:
  "list_all (\<lambda>l. \<not> is_boundary False l) (example_entry ''1672531200'' ''2.5'' ''0.5'' ''SELECT 7;'')
   \<and> run False (([''# Time: a''] @ example_entry ''1672531200'' ''1.5'' ''0.25'' ''SELECT 5;'' @ [''# Time: b''])
                  @ example_entry ''1672531200'' ''2.5'' ''0.5'' ''SELECT 7;'') init_state
     = Inr \<lparr>queryToTimingsMap =
              [(''SELECT ?;'',
                \<lparr>count = 1, query = ''SELECT ?;'', queryTime = Some (Fin (3 / 2)),
                 lockTime = Some (Fin (1 / 4)), totalTime = Some (Fin (7 / 4)),
                 unixTimestamp = Some (Fin 1672531200), connectionId = Some (Fin 42)\<rparr>)],
            currentTiming =
              \<lparr>count = 1, query = ''SELECT 7;'', queryTime = Some (Fin (5 / 2)),
               lockTime = Some (Fin (1 / 2)), totalTime = None,
               unixTimestamp = Some (Fin 1672531200), connectionId = Some (Fin 42)\<rparr>\<rparr>
   \<and> slowLogAnalyzer insertion_sort insertion_sort False (([''# Time: a''] @ example_entry ''1672531200'' ''1.5'' ''0.25'' ''SELECT 5;'' @ [''# Time: b''])
                  @ example_entry ''1672531200'' ''2.5'' ''0.5'' ''SELECT 7;'')
     = slowLogAnalyzer insertion_sort insertion_sort False ([''# Time: a''] @ example_entry ''1672531200'' ''1.5'' ''0.25'' ''SELECT 5;'' @ [''# Time: b''])"
proof -
  have h: "\<forall>l \<in> set (example_entry ''1672531200'' ''2.5'' ''0.5'' ''SELECT 7;''). \<not> is_boundary False l"
    by code_simp
  have r: "run False (([''# Time: a''] @ example_entry ''1672531200'' ''1.5'' ''0.25'' ''SELECT 5;'' @ [''# Time: b''])
                  @ example_entry ''1672531200'' ''2.5'' ''0.5'' ''SELECT 7;'') init_state
     = Inr \<lparr>queryToTimingsMap =
              [(''SELECT ?;'',
                \<lparr>count = 1, query = ''SELECT ?;'', queryTime = Some (Fin (3 / 2)),
                 lockTime = Some (Fin (1 / 4)), totalTime = Some (Fin (7 / 4)),
                 unixTimestamp = Some (Fin 1672531200), connectionId = Some (Fin 42)\<rparr>)],
            currentTiming =
              \<lparr>count = 1, query = ''SELECT 7;'', queryTime = Some (Fin (5 / 2)),
               lockTime = Some (Fin (1 / 2)), totalTime = None,
               unixTimestamp = Some (Fin 1672531200), connectionId = Some (Fin 42)\<rparr>\<rparr>"
    by code_simp
  have h': "list_all (\<lambda>l. \<not> is_boundary False l) (example_entry ''1672531200'' ''2.5'' ''0.5'' ''SELECT 7;'')"
    using h by (simp add: list_all_iff)
  from final_entry_never_committed [OF h r, of insertion_sort insertion_sort] h' r show ?thesis
    by blast
qed

subsection \<open>Committing an entry\<close>

lemma update_absent: "map_of m k = None \<Longrightarrow> AList.update k v m = m @ [(k, v)]"
  by (induction m) (auto split: if_splits)

lemma update_keys_present: "map_of m k = Some w \<Longrightarrow> map fst (AList.update k v m) = map fst m"
  by (induction m) (auto split: if_splits)

lemma commit_new:
  "map_of m (cleanUpQuery (query cur)) = None \<Longrightarrow>
   commit cur m =
     m @ [(cleanUpQuery (query cur),
           cur\<lparr>totalTime := Some (js_plus (queryTime cur) (lockTime cur)),
               query := cleanUpQuery (query cur)\<rparr>)]"
  by (simp add: commit_def Let_def update_absent)

lemma commit_old:
  "map_of m (cleanUpQuery (query cur)) = Some old \<Longrightarrow>
   commit cur m =
     AList.update (cleanUpQuery (query cur))
       (old\<lparr>totalTime :=
              Some (js_plus (totalTime old) (Some (js_plus (queryTime cur) (lockTime cur)))),
            queryTime := Some (js_plus (queryTime old) (queryTime cur)),
            lockTime := Some (js_plus (lockTime old) (lockTime cur)),
            count := count old + 1\<rparr>) m"
  by (simp add: commit_def Let_def)

lemma commit_other_key:
  "k \<noteq> cleanUpQuery (query cur) \<Longrightarrow> map_of (commit cur m) k = map_of m k"
  by (simp add: commit_def Let_def update_conv' split: option.splits)

lemma commit_has_key: "map_of (commit cur m) (cleanUpQuery (query cur)) \<noteq> None"
  by (simp add: commit_def Let_def update_conv' split: option.splits)

lemma commit_keeps_timestamp:
  "map_of m k = Some stat \<Longrightarrow>
   \<exists>stat'. map_of (commit cur m) k = Some stat' \<and> unixTimestamp stat' = unixTimestamp stat"
  by (cases "k = cleanUpQuery (query cur)")
    (simp_all add: commit_old update_conv' commit_other_key)

lemma process_line_keeps_timestamp:
  assumes "map_of (queryToTimingsMap st) k = Some stat" and "process_line cw l st = Inr st'"
  shows "\<exists>stat'. map_of (queryToTimingsMap st') k = Some stat'
           \<and> unixTimestamp stat' = unixTimestamp stat"
proof (cases "is_boundary cw l")
  case True
  with assms(2) have "queryToTimingsMap st' =
      (if query (currentTiming st) \<noteq> [] then commit (currentTiming st) (queryToTimingsMap st)
       else queryToTimingsMap st)"
    by (auto simp add: process_line_boundary)
  with assms(1) show ?thesis
    using commit_keeps_timestamp [of "queryToTimingsMap st" k stat "currentTiming st"]
    by (simp split: if_splits)
next
  case False
  from process_line_other_map [OF this assms(2)] assms(1) show ?thesis by simp
qed

lemma run_keeps_timestamp:
  "map_of (queryToTimingsMap st) k = Some stat \<Longrightarrow> run cw ls st = Inr st' \<Longrightarrow>
   \<exists>stat'. map_of (queryToTimingsMap st') k = Some stat'
     \<and> unixTimestamp stat' = unixTimestamp stat"
proof (induction ls arbitrary: st stat)
  case Nil
  then show ?case by simp
next
  case (Cons l ls)
  from Cons.prems(2) obtain st1 where
    s1: "process_line cw l st = Inr st1" and r: "run cw ls st1 = Inr st'"
    by (auto split: sum.splits)
  from process_line_keeps_timestamp [OF Cons.prems(1) s1] obtain stat1 where
    "map_of (queryToTimingsMap st1) k = Some stat1" "unixTimestamp stat1 = unixTimestamp stat"
    by blast
  with Cons.IH [OF _ r] show ?case by simp
qed

text \<open>
  Claim C5. A merge into a stat that exists leaves its \<^verbatim>\<open>unixTimestamp\<close> as it is; so the
  stat that an entry creates has the timestamp of that entry, and keeps it whatever lines
  (and merges) follow.
\<close>

theorem unixTimestamp_first_write_wins:
  "(\<forall>stat. map_of m (cleanUpQuery (query entry)) = Some stat \<longrightarrow>
      (\<exists>stat'. map_of (commit entry m) (cleanUpQuery (query entry)) = Some stat'
         \<and> unixTimestamp stat' = unixTimestamp stat))
   \<and> (is_boundary cw l \<and> query (currentTiming st) \<noteq> []
        \<and> map_of (queryToTimingsMap st) (cleanUpQuery (query (currentTiming st))) = None
        \<and> process_line cw l st = Inr st1 \<and> run cw ls st1 = Inr st2 \<longrightarrow>
      (\<exists>stat. map_of (queryToTimingsMap st2) (cleanUpQuery (query (currentTiming st))) = Some stat
         \<and> unixTimestamp stat = unixTimestamp (currentTiming st)))"
proof (intro conjI allI impI)
  fix stat
  assume "map_of m (cleanUpQuery (query entry)) = Some stat"
  then show "\<exists>stat'. map_of (commit entry m) (cleanUpQuery (query entry)) = Some stat'
      \<and> unixTimestamp stat' = unixTimestamp stat"
    by (rule commit_keeps_timestamp)
next
  let ?cur = "currentTiming st"
  let ?key = "cleanUpQuery (query ?cur)"
  assume a: "is_boundary cw l \<and> query ?cur \<noteq> []
        \<and> map_of (queryToTimingsMap st) ?key = None
        \<and> process_line cw l st = Inr st1 \<and> run cw ls st1 = Inr st2"
  then have "queryToTimingsMap st1 = commit ?cur (queryToTimingsMap st)"
    by (auto simp add: process_line_boundary)
  with a have "map_of (queryToTimingsMap st1) ?key =
      Some (?cur\<lparr>totalTime := Some (js_plus (queryTime ?cur) (lockTime ?cur)), query := ?key\<rparr>)"
    by (auto simp add: commit_new map_add_def)
  from run_keeps_timestamp [OF this] a
  show "\<exists>stat. map_of (queryToTimingsMap st2) ?key = Some stat
      \<and> unixTimestamp stat = unixTimestamp ?cur"
    by auto
qed

theorem unixTimestamp_first_write_wins_witness:
  "map_of [(''SELECT ?;'', \<lparr>count = 1, query = ''SELECT ?;'', queryTime = Some (Fin 1), lockTime = Some (Fin (1 / 2)), totalTime = Some (Fin (3 / 2)),
        unixTimestamp = Some (Fin 1672531200), connectionId = Some (Fin 42)\<rparr>)] (cleanUpQuery ''SELECT 7;'') = Some (\<lparr>count = 1, query = ''SELECT ?;'', queryTime = Some (Fin 1), lockTime = Some (Fin (1 / 2)), totalTime = Some (Fin (3 / 2)),
        unixTimestamp = Some (Fin 1672531200), connectionId = Some (Fin 42)\<rparr>)
   \<and> map_option unixTimestamp
        (map_of (commit (\<lparr>count = 1, query = ''SELECT 7;'', queryTime = Some (Fin 2), lockTime = Some (Fin (1 / 2)), totalTime = None,
        unixTimestamp = Some (Fin 1672531260), connectionId = Some (Fin 42)\<rparr>) [(''SELECT ?;'', \<lparr>count = 1, query = ''SELECT ?;'', queryTime = Some (Fin 1), lockTime = Some (Fin (1 / 2)), totalTime = Some (Fin (3 / 2)),
        unixTimestamp = Some (Fin 1672531200), connectionId = Some (Fin 42)\<rparr>)]) (cleanUpQuery ''SELECT 7;''))
       = Some (Some (Fin 1672531200))
   \<and> is_boundary False ''# Time: b''
   \<and> map_of [] (cleanUpQuery ''SELECT 5;'') = (None :: timing option)
   \<and> process_line False ''# Time: b'' (\<lparr>queryToTimingsMap = [],
      currentTiming = \<lparr>count = 1, query = ''SELECT 5;'', queryTime = Some (Fin 1), lockTime = Some (Fin (1 / 2)), totalTime = None,
        unixTimestamp = Some (Fin 1672531200), connectionId = Some (Fin 42)\<rparr>\<rparr>) = Inr (\<lparr>queryToTimingsMap = [(''SELECT ?;'', \<lparr>count = 1, query = ''SELECT ?;'', queryTime = Some (Fin 1), lockTime = Some (Fin (1 / 2)), totalTime = Some (Fin (3 / 2)),
        unixTimestamp = Some (Fin 1672531200), connectionId = Some (Fin 42)\<rparr>)],
      currentTiming = new_timing\<rparr>)
   \<and> run False (example_entry ''1672531260'' ''2.0'' ''0.5'' ''SELECT 7;'' @ [''# Time: c'']) (\<lparr>queryToTimingsMap = [(''SELECT ?;'', \<lparr>count = 1, query = ''SELECT ?;'', queryTime = Some (Fin 1), lockTime = Some (Fin (1 / 2)), totalTime = Some (Fin (3 / 2)),
        unixTimestamp = Some (Fin 1672531200), connectionId = Some (Fin 42)\<rparr>)],
      currentTiming = new_timing\<rparr>) = Inr (\<lparr>queryToTimingsMap = [(''SELECT ?;'', \<lparr>count = 2, query = ''SELECT ?;'', queryTime = Some (Fin 3), lockTime = Some (Fin 1), totalTime = Some (Fin 4),
        unixTimestamp = Some (Fin 1672531200), connectionId = Some (Fin 42)\<rparr>)],
      currentTiming = new_timing\<rparr>)
   \<and> map_option unixTimestamp (map_of [(''SELECT ?;'', \<lparr>count = 2, query = ''SELECT ?;'', queryTime = Some (Fin 3), lockTime = Some (Fin 1), totalTime = Some (Fin 4),
        unixTimestamp = Some (Fin 1672531200), connectionId = Some (Fin 42)\<rparr>)] (cleanUpQuery ''SELECT 5;''))
       = Some (Some (Fin 1672531200))"
proof -
  let ?e2 = "\<lparr>count = 1, query = ''SELECT 7;'', queryTime = Some (Fin 2), lockTime = Some (Fin (1 / 2)), totalTime = None,
        unixTimestamp = Some (Fin 1672531260), connectionId = Some (Fin 42)\<rparr>"
  let ?m1 = "[(''SELECT ?;'', \<lparr>count = 1, query = ''SELECT ?;'', queryTime = Some (Fin 1), lockTime = Some (Fin (1 / 2)), totalTime = Some (Fin (3 / 2)),
        unixTimestamp = Some (Fin 1672531200), connectionId = Some (Fin 42)\<rparr>)]"
  let ?st1 = "\<lparr>count = 1, query = ''SELECT ?;'', queryTime = Some (Fin 1), lockTime = Some (Fin (1 / 2)), totalTime = Some (Fin (3 / 2)),
        unixTimestamp = Some (Fin 1672531200), connectionId = Some (Fin 42)\<rparr>"
  let ?S0 = "\<lparr>queryToTimingsMap = [],
      currentTiming = \<lparr>count = 1, query = ''SELECT 5;'', queryTime = Some (Fin 1), lockTime = Some (Fin (1 / 2)), totalTime = None,
        unixTimestamp = Some (Fin 1672531200), connectionId = Some (Fin 42)\<rparr>\<rparr>"
  let ?S1 = "\<lparr>queryToTimingsMap = [(''SELECT ?;'', \<lparr>count = 1, query = ''SELECT ?;'', queryTime = Some (Fin 1), lockTime = Some (Fin (1 / 2)), totalTime = Some (Fin (3 / 2)),
        unixTimestamp = Some (Fin 1672531200), connectionId = Some (Fin 42)\<rparr>)],
      currentTiming = new_timing\<rparr>"
  let ?S2 = "\<lparr>queryToTimingsMap = [(''SELECT ?;'', \<lparr>count = 2, query = ''SELECT ?;'', queryTime = Some (Fin 3), lockTime = Some (Fin 1), totalTime = Some (Fin 4),
        unixTimestamp = Some (Fin 1672531200), connectionId = Some (Fin 42)\<rparr>)],
      currentTiming = new_timing\<rparr>"
  have a: "map_of ?m1 (cleanUpQuery (query ?e2)) = Some ?st1"
    by code_simp
  have b: "is_boundary False ''# Time: b''"
    by code_simp
  have c: "map_of (queryToTimingsMap ?S0) (cleanUpQuery (query (currentTiming ?S0))) = None"
    by code_simp
  have d: "process_line False ''# Time: b'' ?S0 = Inr ?S1"
    by code_simp
  have e: "run False (example_entry ''1672531260'' ''2.0'' ''0.5'' ''SELECT 7;'' @ [''# Time: c'']) ?S1 = Inr ?S2"
    by code_simp
  have f: "query (currentTiming ?S0) \<noteq> []"
    by simp
  have k5: "cleanUpQuery ''SELECT 5;'' = ''SELECT ?;''" and k7: "cleanUpQuery ''SELECT 7;'' = ''SELECT ?;''"
    by code_simp+
  note w = unixTimestamp_first_write_wins [of ?m1 ?e2 False "''# Time: b''" ?S0 ?S1 "(example_entry ''1672531260'' ''2.0'' ''0.5'' ''SELECT 7;'' @ [''# Time: c''])" ?S2]
  from w a obtain stat' where
    "map_of (commit ?e2 ?m1) (cleanUpQuery (query ?e2)) = Some stat'"
    "unixTimestamp stat' = unixTimestamp ?st1"
    by blast
  then have g: "map_option unixTimestamp (map_of (commit ?e2 ?m1) (cleanUpQuery ''SELECT 7;''))
       = Some (Some (Fin 1672531200))"
    by simp
  from w b c d e f obtain stat where
    "map_of (queryToTimingsMap ?S2) (cleanUpQuery (query (currentTiming ?S0))) = Some stat"
    "unixTimestamp stat = unixTimestamp (currentTiming ?S0)"
    by blast
  then have h: "map_option unixTimestamp (map_of (queryToTimingsMap ?S2) (cleanUpQuery ''SELECT 5;''))
       = Some (Some (Fin 1672531200))"
    by simp
  have a': "map_of ?m1 (cleanUpQuery ''SELECT 7;'') = Some ?st1"
    using a by simp
  have c': "map_of [] (cleanUpQuery ''SELECT 5;'') = (None :: timing option)"
    by simp
  have h': "map_option unixTimestamp (map_of [(''SELECT ?;'', \<lparr>count = 2, query = ''SELECT ?;'', queryTime = Some (Fin 3), lockTime = Some (Fin 1), totalTime = Some (Fin 4),
        unixTimestamp = Some (Fin 1672531200), connectionId = Some (Fin 42)\<rparr>)] (cleanUpQuery ''SELECT 5;''))
       = Some (Some (Fin 1672531200))"
    using h by simp
  from a' g b c' d e h' show ?thesis
    by (intro conjI)
qed

subsection \<open>Reachable states\<close>

lemma process_line_count:
  "process_line cw l st = Inr st' \<Longrightarrow> count (currentTiming st) = 1 \<Longrightarrow>
   count (currentTiming st') = 1"
  by (auto simp add: process_line_def Let_def new_timing_def split: if_splits option.splits)

lemma run_count:
  "run cw ls st = Inr st' \<Longrightarrow> count (currentTiming st) = 1 \<Longrightarrow> count (currentTiming st') = 1"
proof (induction ls arbitrary: st)
  case Nil
  then show ?case by simp
next
  case (Cons l ls)
  from Cons.prems(1) obtain st1 where
    s1: "process_line cw l st = Inr st1" and r: "run cw ls st1 = Inr st'"
    by (auto split: sum.splits)
  from process_line_count [OF s1 Cons.prems(2)] Cons.IH [OF r] show ?case by simp
qed

lemma run_totalTime_unset:
  "run cw ls st = Inr st' \<Longrightarrow> totalTime (currentTiming st) = None \<Longrightarrow>
   totalTime (currentTiming st') = None"
proof (induction ls arbitrary: st)
  case Nil
  then show ?case by simp
next
  case (Cons l ls)
  from Cons.prems(1) obtain st1 where
    s1: "process_line cw l st = Inr st1" and r: "run cw ls st1 = Inr st'"
    by (auto split: sum.splits)
  from s1 Cons.prems(2) have "totalTime (currentTiming st1) = None"
    by (auto simp add: process_line_def Let_def new_timing_def split: if_splits option.splits)
  with Cons.IH [OF r] show ?case by simp
qed

text \<open>
  Claim C2. At a boundary line, an entry with query text is keyed by its cleaned query. When
  the key is new, the entry is appended as a stat with count 1, its own \<^verbatim>\<open>queryTime\<close> and
  \<^verbatim>\<open>lockTime\<close>, and their sum as \<^verbatim>\<open>totalTime\<close>. When the key is present, the stat stays
  in its place with the count one higher, the entry's \<^verbatim>\<open>queryTime\<close> and \<^verbatim>\<open>lockTime\<close> added to
  its sums and the entry's \<^verbatim>\<open>queryTime + lockTime\<close> added to its \<^verbatim>\<open>totalTime\<close>; all other
  stats are as before. So two entries with one cleaned query give one stat of count 2, and
  two entries with different cleaned queries give two stats of count 1.
\<close>

theorem merge_by_cleaned_query:
  assumes "run cw ls init_state = Inr st"
    and "is_boundary cw l"
    and "query (currentTiming st) \<noteq> []"
    and "entry = currentTiming st"
    and "key = cleanUpQuery (query entry)"
    and "m = queryToTimingsMap st"
  shows "\<exists>m'. process_line cw l st = Inr \<lparr>queryToTimingsMap = m', currentTiming = new_timing\<rparr>
    \<and> (map_of m key = None \<longrightarrow>
         m' = m @ [(key, \<lparr>count = 1, query = key, queryTime = queryTime entry,
                         lockTime = lockTime entry,
                         totalTime = Some (js_plus (queryTime entry) (lockTime entry)),
                         unixTimestamp = unixTimestamp entry,
                         connectionId = connectionId entry\<rparr>)])
    \<and> (\<forall>old. map_of m key = Some old \<longrightarrow>
         map fst m' = map fst m
         \<and> map_of m' = (map_of m)(key \<mapsto>
             old\<lparr>totalTime := Some (js_plus (totalTime old)
                                (Some (js_plus (queryTime entry) (lockTime entry)))),
                 queryTime := Some (js_plus (queryTime old) (queryTime entry)),
                 lockTime := Some (js_plus (lockTime old) (lockTime entry)),
                 count := count old + 1\<rparr>))"
proof -
  have c: "count entry = 1"
    using run_count [OF assms(1)] assms(4) by (simp add: init_state_def new_timing_def)
  have t: "totalTime entry = None"
    using run_totalTime_unset [OF assms(1)] assms(4) by (simp add: init_state_def new_timing_def)
  have p: "process_line cw l st =
      Inr \<lparr>queryToTimingsMap = commit entry m, currentTiming = new_timing\<rparr>"
    using assms by (simp add: process_line_boundary)
  have n: "commit entry m = m @ [(key, \<lparr>count = 1, query = key, queryTime = queryTime entry,
                         lockTime = lockTime entry,
                         totalTime = Some (js_plus (queryTime entry) (lockTime entry)),
                         unixTimestamp = unixTimestamp entry,
                         connectionId = connectionId entry\<rparr>)]"
    if "map_of m key = None"
    using that c assms(5) by (simp add: commit_new)
  have o: "map fst (commit entry m) = map fst m
         \<and> map_of (commit entry m) = (map_of m)(key \<mapsto>
             old\<lparr>totalTime := Some (js_plus (totalTime old)
                                (Some (js_plus (queryTime entry) (lockTime entry)))),
                 queryTime := Some (js_plus (queryTime old) (queryTime entry)),
                 lockTime := Some (js_plus (lockTime old) (lockTime entry)),
                 count := count old + 1\<rparr>)"
    if "map_of m key = Some old" for old
    using that assms(5) by (simp add: commit_old update_keys_present update_conv')
  show ?thesis
  proof (intro exI [of _ "commit entry m"] conjI impI allI)
    show "process_line cw l st =
        Inr \<lparr>queryToTimingsMap = commit entry m, currentTiming = new_timing\<rparr>"
      by (rule p)
  next
    assume "map_of m key = None"
    then show "commit entry m = m @ [(key, \<lparr>count = 1, query = key, queryTime = queryTime entry,
                         lockTime = lockTime entry,
                         totalTime = Some (js_plus (queryTime entry) (lockTime entry)),
                         unixTimestamp = unixTimestamp entry,
                         connectionId = connectionId entry\<rparr>)]"
      by (rule n)
  next
    fix old
    assume "map_of m key = Some old"
    from o [OF this] show "map fst (commit entry m) = map fst m" ..
  next
    fix old
    assume "map_of m key = Some old"
    from o [OF this] show "map_of (commit entry m) = (map_of m)(key \<mapsto>
             old\<lparr>totalTime := Some (js_plus (totalTime old)
                                (Some (js_plus (queryTime entry) (lockTime entry)))),
                 queryTime := Some (js_plus (queryTime old) (queryTime entry)),
                 lockTime := Some (js_plus (lockTime old) (lockTime entry)),
                 count := count old + 1\<rparr>)" ..
  qed
qed


theorem merge_by_cleaned_query_witness:
  "run False ([''# Time: a''] @ example_entry ''1672531200'' ''1.0'' ''0.5'' ''SELECT 5;'' @ [''# Time: b''] @ example_entry ''1672531260'' ''2.0'' ''0.5'' ''SELECT 7;'') init_state = Inr (\<lparr>queryToTimingsMap = [(''SELECT ?;'', \<lparr>count = 1, query = ''SELECT ?;'', queryTime = Some (Fin 1), lockTime = Some (Fin (1 / 2)), totalTime = Some (Fin (3 / 2)),
        unixTimestamp = Some (Fin 1672531200), connectionId = Some (Fin 42)\<rparr>)],
      currentTiming = \<lparr>count = 1, query = ''SELECT 7;'', queryTime = Some (Fin 2), lockTime = Some (Fin (1 / 2)), totalTime = None,
        unixTimestamp = Some (Fin 1672531260), connectionId = Some (Fin 42)\<rparr>\<rparr>)
   \<and> is_boundary False ''# Time: c''
   \<and> map_of [(''SELECT ?;'', \<lparr>count = 1, query = ''SELECT ?;'', queryTime = Some (Fin 1), lockTime = Some (Fin (1 / 2)), totalTime = Some (Fin (3 / 2)),
        unixTimestamp = Some (Fin 1672531200), connectionId = Some (Fin 42)\<rparr>)] (cleanUpQuery ''SELECT 7;'') = Some (\<lparr>count = 1, query = ''SELECT ?;'', queryTime = Some (Fin 1), lockTime = Some (Fin (1 / 2)), totalTime = Some (Fin (3 / 2)),
        unixTimestamp = Some (Fin 1672531200), connectionId = Some (Fin 42)\<rparr>)
   \<and> (\<exists>m'. process_line False ''# Time: c'' (\<lparr>queryToTimingsMap = [(''SELECT ?;'', \<lparr>count = 1, query = ''SELECT ?;'', queryTime = Some (Fin 1), lockTime = Some (Fin (1 / 2)), totalTime = Some (Fin (3 / 2)),
        unixTimestamp = Some (Fin 1672531200), connectionId = Some (Fin 42)\<rparr>)],
      currentTiming = \<lparr>count = 1, query = ''SELECT 7;'', queryTime = Some (Fin 2), lockTime = Some (Fin (1 / 2)), totalTime = None,
        unixTimestamp = Some (Fin 1672531260), connectionId = Some (Fin 42)\<rparr>\<rparr>)
            = Inr \<lparr>queryToTimingsMap = m', currentTiming = new_timing\<rparr>
         \<and> map fst m' = [''SELECT ?;'']
         \<and> map_of m' ''SELECT ?;'' = Some (\<lparr>count = 2, query = ''SELECT ?;'', queryTime = Some (Fin 3), lockTime = Some (Fin 1), totalTime = Some (Fin 4),
        unixTimestamp = Some (Fin 1672531200), connectionId = Some (Fin 42)\<rparr>))
   \<and> run False ([''# Time: a''] @ example_entry ''1672531200'' ''1.0'' ''0.5'' ''SELECT 5;'' @ [''# Time: b''] @ example_entry ''1672531260'' ''2.0'' ''0.5'' ''SELECT 7 FROM u;'') init_state = Inr (\<lparr>queryToTimingsMap = [(''SELECT ?;'', \<lparr>count = 1, query = ''SELECT ?;'', queryTime = Some (Fin 1), lockTime = Some (Fin (1 / 2)), totalTime = Some (Fin (3 / 2)),
        unixTimestamp = Some (Fin 1672531200), connectionId = Some (Fin 42)\<rparr>)],
      currentTiming = \<lparr>count = 1, query = ''SELECT 7 FROM u;'', queryTime = Some (Fin 2), lockTime = Some (Fin (1 / 2)), totalTime = None,
        unixTimestamp = Some (Fin 1672531260), connectionId = Some (Fin 42)\<rparr>\<rparr>)
   \<and> map_of [(''SELECT ?;'', \<lparr>count = 1, query = ''SELECT ?;'', queryTime = Some (Fin 1), lockTime = Some (Fin (1 / 2)), totalTime = Some (Fin (3 / 2)),
        unixTimestamp = Some (Fin 1672531200), connectionId = Some (Fin 42)\<rparr>)] (cleanUpQuery ''SELECT 7 FROM u;'') = None
   \<and> process_line False ''# Time: c'' (\<lparr>queryToTimingsMap = [(''SELECT ?;'', \<lparr>count = 1, query = ''SELECT ?;'', queryTime = Some (Fin 1), lockTime = Some (Fin (1 / 2)), totalTime = Some (Fin (3 / 2)),
        unixTimestamp = Some (Fin 1672531200), connectionId = Some (Fin 42)\<rparr>)],
      currentTiming = \<lparr>count = 1, query = ''SELECT 7 FROM u;'', queryTime = Some (Fin 2), lockTime = Some (Fin (1 / 2)), totalTime = None,
        unixTimestamp = Some (Fin 1672531260), connectionId = Some (Fin 42)\<rparr>\<rparr>)
       = Inr \<lparr>queryToTimingsMap =
              [(''SELECT ?;'', \<lparr>count = 1, query = ''SELECT ?;'', queryTime = Some (Fin 1), lockTime = Some (Fin (1 / 2)), totalTime = Some (Fin (3 / 2)),
        unixTimestamp = Some (Fin 1672531200), connectionId = Some (Fin 42)\<rparr>),
       (''SELECT ? FROM u;'', \<lparr>count = 1, query = ''SELECT ? FROM u;'', queryTime = Some (Fin 2), lockTime = Some (Fin (1 / 2)), totalTime = Some (Fin (5 / 2)),
        unixTimestamp = Some (Fin 1672531260), connectionId = Some (Fin 42)\<rparr>)],
            currentTiming = new_timing\<rparr>"
proof -
  let ?Sb = "\<lparr>queryToTimingsMap = [(''SELECT ?;'', \<lparr>count = 1, query = ''SELECT ?;'', queryTime = Some (Fin 1), lockTime = Some (Fin (1 / 2)), totalTime = Some (Fin (3 / 2)),
        unixTimestamp = Some (Fin 1672531200), connectionId = Some (Fin 42)\<rparr>)],
      currentTiming = \<lparr>count = 1, query = ''SELECT 7;'', queryTime = Some (Fin 2), lockTime = Some (Fin (1 / 2)), totalTime = None,
        unixTimestamp = Some (Fin 1672531260), connectionId = Some (Fin 42)\<rparr>\<rparr>"
  let ?S3 = "\<lparr>queryToTimingsMap = [(''SELECT ?;'', \<lparr>count = 1, query = ''SELECT ?;'', queryTime = Some (Fin 1), lockTime = Some (Fin (1 / 2)), totalTime = Some (Fin (3 / 2)),
        unixTimestamp = Some (Fin 1672531200), connectionId = Some (Fin 42)\<rparr>)],
      currentTiming = \<lparr>count = 1, query = ''SELECT 7 FROM u;'', queryTime = Some (Fin 2), lockTime = Some (Fin (1 / 2)), totalTime = None,
        unixTimestamp = Some (Fin 1672531260), connectionId = Some (Fin 42)\<rparr>\<rparr>"
  let ?st1 = "\<lparr>count = 1, query = ''SELECT ?;'', queryTime = Some (Fin 1), lockTime = Some (Fin (1 / 2)), totalTime = Some (Fin (3 / 2)),
        unixTimestamp = Some (Fin 1672531200), connectionId = Some (Fin 42)\<rparr>"
  let ?m1 = "[(''SELECT ?;'', \<lparr>count = 1, query = ''SELECT ?;'', queryTime = Some (Fin 1), lockTime = Some (Fin (1 / 2)), totalTime = Some (Fin (3 / 2)),
        unixTimestamp = Some (Fin 1672531200), connectionId = Some (Fin 42)\<rparr>)]"
  have r2: "run False ([''# Time: a''] @ example_entry ''1672531200'' ''1.0'' ''0.5'' ''SELECT 5;'' @ [''# Time: b''] @ example_entry ''1672531260'' ''2.0'' ''0.5'' ''SELECT 7;'') init_state = Inr ?Sb"
    by code_simp
  have r3: "run False ([''# Time: a''] @ example_entry ''1672531200'' ''1.0'' ''0.5'' ''SELECT 5;'' @ [''# Time: b''] @ example_entry ''1672531260'' ''2.0'' ''0.5'' ''SELECT 7 FROM u;'') init_state = Inr ?S3"
    by code_simp
  have b: "is_boundary False ''# Time: c''"
    by code_simp
  have k7: "cleanUpQuery ''SELECT 7;'' = ''SELECT ?;''"
    and k3: "cleanUpQuery ''SELECT 7 FROM u;'' = ''SELECT ? FROM u;''"
    by code_simp+
  have o: "map_of ?m1 (cleanUpQuery ''SELECT 7;'') = Some ?st1"
    by (simp add: k7)
  have n: "map_of ?m1 (cleanUpQuery ''SELECT 7 FROM u;'') = None"
    by (simp add: k3)
  have j1: "js_plus (Some (Fin (3 / 2))) (Some (js_plus (Some (Fin 2)) (Some (Fin (1 / 2))))) = Fin 4"
    and j2: "js_plus (Some (Fin 1)) (Some (Fin 2)) = Fin 3"
    and j3: "js_plus (Some (Fin (1 / 2))) (Some (Fin (1 / 2))) = Fin 1"
    and j4: "js_plus (Some (Fin 2)) (Some (Fin (1 / 2))) = Fin (5 / 2)"
    by code_simp+
  from merge_by_cleaned_query [OF r2 b _ refl refl refl]
  obtain m' where
    p: "process_line False ''# Time: c'' ?Sb
          = Inr \<lparr>queryToTimingsMap = m', currentTiming = new_timing\<rparr>"
    and q: "\<forall>old. map_of (queryToTimingsMap ?Sb) (cleanUpQuery (query (currentTiming ?Sb))) = Some old \<longrightarrow>
         map fst m' = map fst (queryToTimingsMap ?Sb)
         \<and> map_of m' = (map_of (queryToTimingsMap ?Sb))(cleanUpQuery (query (currentTiming ?Sb)) \<mapsto>
             old\<lparr>totalTime := Some (js_plus (totalTime old)
                                (Some (js_plus (queryTime (currentTiming ?Sb)) (lockTime (currentTiming ?Sb))))),
                 queryTime := Some (js_plus (queryTime old) (queryTime (currentTiming ?Sb))),
                 lockTime := Some (js_plus (lockTime old) (lockTime (currentTiming ?Sb))),
                 count := count old + 1\<rparr>)"
    by auto
  from q o have q1: "map fst m' = [''SELECT ?;'']"
    by simp
  from q o have q2: "map_of m' ''SELECT ?;'' = Some (\<lparr>count = 2, query = ''SELECT ?;'', queryTime = Some (Fin 3), lockTime = Some (Fin 1), totalTime = Some (Fin 4),
        unixTimestamp = Some (Fin 1672531200), connectionId = Some (Fin 42)\<rparr>)"
    by (simp add: k7 j1 j2 j3)
  from merge_by_cleaned_query [OF r3 b _ refl refl refl]
  obtain m3 where
    p3: "process_line False ''# Time: c'' ?S3
          = Inr \<lparr>queryToTimingsMap = m3, currentTiming = new_timing\<rparr>"
    and q3: "map_of (queryToTimingsMap ?S3) (cleanUpQuery (query (currentTiming ?S3))) = None \<longrightarrow>
         m3 = queryToTimingsMap ?S3 @ [(cleanUpQuery (query (currentTiming ?S3)),
              \<lparr>count = 1, query = cleanUpQuery (query (currentTiming ?S3)),
               queryTime = queryTime (currentTiming ?S3),
               lockTime = lockTime (currentTiming ?S3),
               totalTime = Some (js_plus (queryTime (currentTiming ?S3)) (lockTime (currentTiming ?S3))),
               unixTimestamp = unixTimestamp (currentTiming ?S3),
               connectionId = connectionId (currentTiming ?S3)\<rparr>)]"
    by auto
  from q3 n have "m3 = [(''SELECT ?;'', \<lparr>count = 1, query = ''SELECT ?;'', queryTime = Some (Fin 1), lockTime = Some (Fin (1 / 2)), totalTime = Some (Fin (3 / 2)),
        unixTimestamp = Some (Fin 1672531200), connectionId = Some (Fin 42)\<rparr>),
       (''SELECT ? FROM u;'', \<lparr>count = 1, query = ''SELECT ? FROM u;'', queryTime = Some (Fin 2), lockTime = Some (Fin (1 / 2)), totalTime = Some (Fin (5 / 2)),
        unixTimestamp = Some (Fin 1672531260), connectionId = Some (Fin 42)\<rparr>)]"
    by (simp add: k3 j4)
  with p3 have p3': "process_line False ''# Time: c'' ?S3
       = Inr \<lparr>queryToTimingsMap =
              [(''SELECT ?;'', \<lparr>count = 1, query = ''SELECT ?;'', queryTime = Some (Fin 1), lockTime = Some (Fin (1 / 2)), totalTime = Some (Fin (3 / 2)),
        unixTimestamp = Some (Fin 1672531200), connectionId = Some (Fin 42)\<rparr>),
       (''SELECT ? FROM u;'', \<lparr>count = 1, query = ''SELECT ? FROM u;'', queryTime = Some (Fin 2), lockTime = Some (Fin (1 / 2)), totalTime = Some (Fin (5 / 2)),
        unixTimestamp = Some (Fin 1672531260), connectionId = Some (Fin 42)\<rparr>)],
            currentTiming = new_timing\<rparr>"
    by simp
  from p q1 q2 have ex: "\<exists>m'. process_line False ''# Time: c'' ?Sb
            = Inr \<lparr>queryToTimingsMap = m', currentTiming = new_timing\<rparr>
         \<and> map fst m' = [''SELECT ?;'']
         \<and> map_of m' ''SELECT ?;'' = Some (\<lparr>count = 2, query = ''SELECT ?;'', queryTime = Some (Fin 3), lockTime = Some (Fin 1), totalTime = Some (Fin 4),
        unixTimestamp = Some (Fin 1672531200), connectionId = Some (Fin 42)\<rparr>)"
    by (intro exI [of _ m'] conjI)
  from r2 b o ex r3 n p3' show ?thesis
    by (intro conjI)
qed

subsection \<open>Which entries are committed\<close>

lemma replace_all_nonempty: "s \<noteq> [] \<Longrightarrow> replace_all ps s \<noteq> []"
  by (cases s) (auto split: option.splits)

lemma cleanUpQuery_empty_iff:
  assumes "q \<noteq> []" and "s = replace_all string_rx (replace_all number_rx q)"
  shows "cleanUpQuery q = [] \<longleftrightarrow> endsWith s [dquote] \<and> length s \<le> 2"
proof -
  have ne: "s \<noteq> []"
    using assms by (simp add: replace_all_nonempty)
  have c: "cleanUpQuery q = (if endsWith s [dquote] then take (length s - 2) s else s)"
    by (simp add: cleanUpQuery_def Let_def assms(2) substring0_def nat_diff_distrib')
  show ?thesis
    using ne by (auto simp add: c)
qed

lemma commit_keys: "fst ` set (commit cur m) = insert (cleanUpQuery (query cur)) (fst ` set m)"
  by (simp add: commit_def Let_def dom_update split: option.splits)

lemma commit_changes: "commit cur m \<noteq> m"
proof (cases "map_of m (cleanUpQuery (query cur))")
  case None
  then show ?thesis by (simp add: commit_new)
next
  case (Some old)
  have "map_of (commit cur m) (cleanUpQuery (query cur)) \<noteq> Some old"
    by (simp add: commit_old [OF Some] update_conv')
      (metis n_not_Suc_n timing.select_convs(1) timing.surjective timing.update_convs(1))
  with Some show ?thesis by auto
qed

lemma process_line_keys_cleaned:
  assumes "process_line cw l st = Inr st'" and "keys_cleaned (queryToTimingsMap st)"
  shows "keys_cleaned (queryToTimingsMap st')"
proof (cases "is_boundary cw l")
  case True
  with assms(1) have "queryToTimingsMap st' =
      (if query (currentTiming st) \<noteq> [] then commit (currentTiming st) (queryToTimingsMap st)
       else queryToTimingsMap st)"
    by (auto simp add: process_line_boundary)
  then have "fst ` set (queryToTimingsMap st') =
      (if query (currentTiming st) \<noteq> []
       then insert (cleanUpQuery (query (currentTiming st))) (fst ` set (queryToTimingsMap st))
       else fst ` set (queryToTimingsMap st))"
    by (simp add: commit_keys)
  with assms(2) show ?thesis
    unfolding keys_cleaned_def by (cases "query (currentTiming st) = []") auto
next
  case False
  from process_line_other_map [OF this assms(1)] assms(2) show ?thesis by simp
qed

lemma run_keys_cleaned:
  "run cw ls st = Inr st' \<Longrightarrow> keys_cleaned (queryToTimingsMap st) \<Longrightarrow>
   keys_cleaned (queryToTimingsMap st')"
proof (induction ls arbitrary: st)
  case Nil
  then show ?case by simp
next
  case (Cons l ls)
  from Cons.prems(1) obtain st1 where
    s1: "process_line cw l st = Inr st1" and r: "run cw ls st1 = Inr st'"
    by (auto split: sum.splits)
  from process_line_keys_cleaned [OF s1 Cons.prems(2)] Cons.IH [OF r] show ?case by simp
qed

text \<open>
  Claim C1, as stated, fails: the handler tests the query text before cleaning it, and a
  text of one character and a double quote is cleaned to the empty text. The entry is
  committed, under the empty key.
\<close>

theorem empty_key_counterexample:
  "cleanUpQuery [CHR ''x'', dquote] = []
   \<and> run False [''# Time: a'', ''# Query_time: 1.0  Lock_time: 0.5 Rows_sent: 1  Rows_examined: 1'', [CHR ''x'', dquote], ''# Time: b''] init_state
     = Inr \<lparr>queryToTimingsMap = [([], \<lparr>count = 1, query = [], queryTime = Some (Fin 1), lockTime = Some (Fin (1 / 2)), totalTime = Some (Fin (3 / 2)),
        unixTimestamp = None, connectionId = None\<rparr>)],
            currentTiming = new_timing\<rparr>"
  by code_simp

text \<open>
  Claim C1, amended. At a boundary line the entry is committed exactly when its query
  text, as accumulated and before cleaning, is not empty: with an empty text the mapping
  stays as it is, with any other text it changes and then holds the cleaned text as a
  key. So every key of the mapping is the cleaned form of a text that is not empty; and
  such a form is empty exactly when the substituted text ends with a double quote and has
  at most two characters.
\<close>

theorem boundary_commits_nonempty_text:
  assumes "is_boundary cw l"
  shows "(query (currentTiming st) = [] \<longrightarrow>
           process_line cw l st =
             Inr \<lparr>queryToTimingsMap = queryToTimingsMap st, currentTiming = new_timing\<rparr>)
       \<and> (query (currentTiming st) \<noteq> [] \<longrightarrow>
           (\<exists>m'. process_line cw l st = Inr \<lparr>queryToTimingsMap = m', currentTiming = new_timing\<rparr>
              \<and> m' \<noteq> queryToTimingsMap st
              \<and> map_of m' (cleanUpQuery (query (currentTiming st))) \<noteq> None))
       \<and> (\<forall>ls st'. run cw ls init_state = Inr st' \<longrightarrow>
             (\<forall>k \<in> fst ` set (queryToTimingsMap st'). \<exists>q. q \<noteq> [] \<and> k = cleanUpQuery q))
       \<and> (\<forall>q. q \<noteq> [] \<longrightarrow>
             (cleanUpQuery q = [] \<longleftrightarrow>
                endsWith (replace_all string_rx (replace_all number_rx q)) [dquote]
                \<and> length (replace_all string_rx (replace_all number_rx q)) \<le> 2))"
proof (intro conjI impI allI)
  assume "query (currentTiming st) = []"
  with assms show "process_line cw l st =
      Inr \<lparr>queryToTimingsMap = queryToTimingsMap st, currentTiming = new_timing\<rparr>"
    by (simp add: process_line_boundary)
next
  assume "query (currentTiming st) \<noteq> []"
  with assms have "process_line cw l st =
      Inr \<lparr>queryToTimingsMap = commit (currentTiming st) (queryToTimingsMap st),
           currentTiming = new_timing\<rparr>"
    by (simp add: process_line_boundary)
  then show "\<exists>m'. process_line cw l st = Inr \<lparr>queryToTimingsMap = m', currentTiming = new_timing\<rparr>
      \<and> m' \<noteq> queryToTimingsMap st
      \<and> map_of m' (cleanUpQuery (query (currentTiming st))) \<noteq> None"
    using commit_changes commit_has_key by (intro exI [of _ "commit (currentTiming st) (queryToTimingsMap st)"] conjI)
next
  fix ls st'
  assume "run cw ls init_state = Inr st'"
  from run_keys_cleaned [OF this]
  show "\<forall>k \<in> fst ` set (queryToTimingsMap st'). \<exists>q. q \<noteq> [] \<and> k = cleanUpQuery q"
    by (simp add: keys_cleaned_def init_state_def)
next
  fix q :: string
  assume "q \<noteq> []"
  from cleanUpQuery_empty_iff [OF this refl]
  show "cleanUpQuery q = [] \<longleftrightarrow>
      endsWith (replace_all string_rx (replace_all number_rx q)) [dquote]
      \<and> length (replace_all string_rx (replace_all number_rx q)) \<le> 2" .
qed

theorem boundary_commits_nonempty_text_witness:
  "is_boundary False ''# Time: a''
   \<and> process_line False ''# Time: a'' init_state = Inr init_state
   \<and> (\<exists>m'. process_line False ''# Time: a'' (\<lparr>queryToTimingsMap = [], currentTiming = \<lparr>count = 1, query = ''SELECT 5;'', queryTime = Some (Fin 1), lockTime = Some (Fin (1 / 2)), totalTime = None,
        unixTimestamp = Some (Fin 1672531200), connectionId = Some (Fin 42)\<rparr>\<rparr>)
          = Inr \<lparr>queryToTimingsMap = m', currentTiming = new_timing\<rparr>
        \<and> m' \<noteq> [] \<and> map_of m' (cleanUpQuery ''SELECT 5;'') \<noteq> None)
   \<and> run False [''SELECT 5;'', ''# Time: a''] init_state
       = Inr \<lparr>queryToTimingsMap =
                [(''SELECT ?;'',
                  \<lparr>count = 1, query = ''SELECT ?;'', queryTime = None, lockTime = None,
                   totalTime = Some NaN, unixTimestamp = None, connectionId = None\<rparr>)],
              currentTiming = new_timing\<rparr>
   \<and> (\<exists>q. q \<noteq> [] \<and> ''SELECT ?;'' = cleanUpQuery q)
   \<and> endsWith (replace_all string_rx (replace_all number_rx [CHR ''x'', dquote])) [dquote]
   \<and> length (replace_all string_rx (replace_all number_rx [CHR ''x'', dquote])) \<le> 2
   \<and> cleanUpQuery [CHR ''x'', dquote] = []"
proof -
  let ?S = "\<lparr>queryToTimingsMap = [], currentTiming = \<lparr>count = 1, query = ''SELECT 5;'', queryTime = Some (Fin 1), lockTime = Some (Fin (1 / 2)), totalTime = None,
        unixTimestamp = Some (Fin 1672531200), connectionId = Some (Fin 42)\<rparr>\<rparr>"
  let ?m = "[(''SELECT ?;'',
                  \<lparr>count = 1, query = ''SELECT ?;'', queryTime = None, lockTime = None,
                   totalTime = Some NaN, unixTimestamp = None, connectionId = None\<rparr>)]"
  have b: "is_boundary False ''# Time: a''"
    by code_simp
  note w = boundary_commits_nonempty_text [OF b]
  have i: "init_state = \<lparr>queryToTimingsMap = queryToTimingsMap init_state, currentTiming = new_timing\<rparr>"
    by (simp add: init_state_def)
  from w [of init_state] have "process_line False ''# Time: a'' init_state =
      Inr \<lparr>queryToTimingsMap = queryToTimingsMap init_state, currentTiming = new_timing\<rparr>"
    by (simp add: init_state_def new_timing_def)
  with i have p0: "process_line False ''# Time: a'' init_state = Inr init_state"
    by simp
  from w [of ?S] have p1: "\<exists>m'. process_line False ''# Time: a'' ?S
          = Inr \<lparr>queryToTimingsMap = m', currentTiming = new_timing\<rparr>
        \<and> m' \<noteq> [] \<and> map_of m' (cleanUpQuery ''SELECT 5;'') \<noteq> None"
    by simp
  have r: "run False [''SELECT 5;'', ''# Time: a''] init_state
       = Inr \<lparr>queryToTimingsMap = ?m, currentTiming = new_timing\<rparr>"
    by code_simp
  from w [of init_state] r
  have "\<forall>k \<in> fst ` set (queryToTimingsMap \<lparr>queryToTimingsMap = ?m, currentTiming = new_timing\<rparr>).
      \<exists>q. q \<noteq> [] \<and> k = cleanUpQuery q"
    by blast
  then have k: "\<exists>q. q \<noteq> [] \<and> ''SELECT ?;'' = cleanUpQuery q"
    by simp
  have e: "endsWith (replace_all string_rx (replace_all number_rx [CHR ''x'', dquote])) [dquote]"
    and l: "length (replace_all string_rx (replace_all number_rx [CHR ''x'', dquote])) \<le> 2"
    by code_simp+
  from w [of init_state] e l have c: "cleanUpQuery [CHR ''x'', dquote] = []"
    by blast
  from b p0 p1 r k e l c show ?thesis
    by (intro conjI)
qed

subsection \<open>Marker lines\<close>


lemma boundary_standard: "is_boundary False line = startsWith line ''# Time:''"
  by (simp add: is_boundary_def)












subsection \<open>The sum of the times\<close>




end
